theory Spec2Isabelle
  imports Complex_Main
begin

section \<open>Data model: the data frame of \<open>app.py\<close>\<close>

text \<open>
  A cell of a pandas data frame as \<open>app.py\<close> meets it: a missing value (NaN), a number,
  or a string (an object-dtype cell that \<open>read_csv\<close> left as text). Finite numbers are
  modelled exactly, as rationals; the rounding of 64-bit floats and the two infinite
  floats are not modelled.
\<close>

datatype cell = NaN | Num rat | Str string

text \<open>
  A row gives every column name its cell; only the names listed in \<open>columns\<close> are ever
  read. The frame keeps the order of the rows.
\<close>

type_synonym row = "string \<Rightarrow> cell"

record dataframe =
  columns :: "string list"
  rows :: "row list"

text \<open>The Python exceptions the script can meet, each with the text of \<open>str(e)\<close>.\<close>

datatype py_exception =
  FileNotFoundError
  | KeyError string
  | ValueError string
  | TypeError string
  | NameError string
  | OtherException string

fun str_exc :: "py_exception \<Rightarrow> string" where
  "str_exc FileNotFoundError = ''[Errno 2] No such file or directory''"
| "str_exc (KeyError s) = s"
| "str_exc (ValueError s) = s"
| "str_exc (TypeError s) = s"
| "str_exc (NameError s) = s"
| "str_exc (OtherException s) = s"

text \<open>Python's \<open>repr\<close> of a string without quotes inside, and of a list of such strings.\<close>

definition py_repr_str :: "string \<Rightarrow> string" where
  "py_repr_str s = [CHR 0x27] @ s @ [CHR 0x27]"

fun join_comma :: "string list \<Rightarrow> string" where
  "join_comma [] = []"
| "join_comma [s] = s"
| "join_comma (s # t # ss) = s @ '', '' @ join_comma (t # ss)"

definition py_repr_list :: "string list \<Rightarrow> string" where
  "py_repr_list ss = ''['' @ join_comma (map py_repr_str ss) @ '']''"

section \<open>The loader: \<open>load_data\<close>\<close>

text \<open>
  \<open>pd.read_csv\<close> is outside the repository: its outcome is the input of the model, either
  the exception it raised or the frame it parsed.
\<close>

datatype csv_read = Raises py_exception | Parsed dataframe

text \<open>
  \<open>pd.to_numeric(..., errors='coerce')\<close> on one cell. The numeric parser of pandas is a
  parameter \<open>parse\<close>: a string it rejects becomes NaN, nothing is raised.
\<close>

definition to_numeric :: "(string \<Rightarrow> rat option) \<Rightarrow> cell \<Rightarrow> cell" where
  "to_numeric parse c =
     (case c of
        NaN \<Rightarrow> NaN
      | Num x \<Rightarrow> Num x
      | Str s \<Rightarrow> (case parse s of None \<Rightarrow> NaN | Some x \<Rightarrow> Num x))"

text \<open>\<open>df[col] = pd.to_numeric(df[col], errors='coerce')\<close>.\<close>

definition coerce_column :: "(string \<Rightarrow> rat option) \<Rightarrow> string \<Rightarrow> dataframe \<Rightarrow> dataframe" where
  "coerce_column parse col df =
     df\<lparr>rows := map (\<lambda>r. r(col := to_numeric parse (r col))) (rows df)\<rparr>"

definition numeric_cols :: "string list" where
  "numeric_cols = [''model_year'', ''odometer'', ''price'']"

text \<open>The loop over \<open>numeric_cols\<close>: a column that is absent is skipped.\<close>

definition coerce_numeric_cols :: "(string \<Rightarrow> rat option) \<Rightarrow> dataframe \<Rightarrow> dataframe" where
  "coerce_numeric_cols parse df =
     fold (\<lambda>col d. if col \<in> set (columns d) then coerce_column parse col d else d)
       numeric_cols df"

text \<open>
  \<open>DataFrame.dropna(subset=...)\<close>: pandas raises \<open>KeyError\<close> with the list of the subset's
  labels that are not columns; otherwise it keeps the rows with no NaN in the subset.
\<close>

definition dropna :: "string list \<Rightarrow> dataframe \<Rightarrow> py_exception + dataframe" where
  "dropna subset_cols df =
     (let missing = filter (\<lambda>c. c \<notin> set (columns df)) subset_cols
      in if missing \<noteq> [] then Inl (KeyError (py_repr_list missing))
         else Inr (df\<lparr>rows := filter (\<lambda>r. list_all (\<lambda>c. r c \<noteq> NaN) subset_cols) (rows df)\<rparr>))"

text \<open>The three messages of \<open>st.error\<close>.\<close>

definition schema_error_msg :: string where
  "schema_error_msg =
     ''Error: La columna '' @ py_repr_str ''model_year'' @ '' no existe en el dataset.''"

definition source_not_found_msg :: string where
  "source_not_found_msg =
     ''Error: Archivo '' @ py_repr_str ''vehicles_us.csv''
       @ '' no encontrado en la carpeta '' @ py_repr_str ''data''"

definition load_failure_msg :: "py_exception \<Rightarrow> string" where
  "load_failure_msg e = ''Error al cargar datos: '' @ str_exc e"

text \<open>
  The two \<open>except\<close> clauses, in the order of the source. The result of \<open>load_data\<close> is the
  pair of the messages it showed with \<open>st.error\<close> and the value it returned (\<open>None\<close> or
  the frame).
\<close>

definition handle_exception :: "py_exception \<Rightarrow> string list \<times> dataframe option" where
  "handle_exception e =
     (case e of
        FileNotFoundError \<Rightarrow> ([source_not_found_msg], None)
      | _ \<Rightarrow> ([load_failure_msg e], None))"

definition load_data :: "(string \<Rightarrow> rat option) \<Rightarrow> csv_read \<Rightarrow> string list \<times> dataframe option" where
  "load_data parse src =
     (case src of
        Raises e \<Rightarrow> handle_exception e
      | Parsed df \<Rightarrow>
          if ''model_year'' \<notin> set (columns df) then ([schema_error_msg], None)
          else (case dropna [''model_year'', ''odometer'', ''price''] (coerce_numeric_cols parse df) of
                  Inl e \<Rightarrow> handle_exception e
                | Inr d \<Rightarrow> ([], Some d)))"

text \<open>
  A sample numeric parser for the examples: it accepts the non-empty strings of decimal
  digits and nothing else.
\<close>

definition digit_val :: "char \<Rightarrow> nat" where
  "digit_val ch = of_char ch - 48"

definition is_digit :: "char \<Rightarrow> bool" where
  "is_digit ch = (48 \<le> (of_char ch :: nat) \<and> (of_char ch :: nat) \<le> 57)"

definition parse_digits :: "string \<Rightarrow> rat option" where
  "parse_digits s =
     (if s \<noteq> [] \<and> list_all is_digit s
      then Some (of_nat (foldl (\<lambda>a ch. 10 * a + digit_val ch) 0 s))
      else None)"

section \<open>Series operations used by the script\<close>

text \<open>Sequencing of steps that may raise: the first exception ends the computation.\<close>

definition bind_exc :: "py_exception + 'a \<Rightarrow> ('a \<Rightarrow> py_exception + 'b) \<Rightarrow> py_exception + 'b" where
  "bind_exc m f = (case m of Inl e \<Rightarrow> Inl e | Inr x \<Rightarrow> f x)"

text \<open>\<open>df[col]\<close>: the cells of a column, or \<open>KeyError\<close> when the frame has no such column.\<close>

definition getitem_col :: "dataframe \<Rightarrow> string \<Rightarrow> py_exception + cell list" where
  "getitem_col df col =
     (if col \<in> set (columns df) then Inr (map (\<lambda>r. r col) (rows df))
      else Inl (KeyError (py_repr_str col)))"

fun is_str :: "cell \<Rightarrow> bool" where
  "is_str (Str s) = True"
| "is_str c = False"

fun is_num :: "cell \<Rightarrow> bool" where
  "is_num (Num x) = True"
| "is_num c = False"

fun nums :: "cell list \<Rightarrow> rat list" where
  "nums [] = []"
| "nums (Num x # cs) = x # nums cs"
| "nums (c # cs) = nums cs"

text \<open>
  The numbers of a Series for \<open>min\<close>, \<open>max\<close> and \<open>mean\<close>: NaN is skipped (\<open>skipna\<close> is the
  default); a Series that still holds text is not numeric and the operation fails.
\<close>

definition numeric_values :: "cell list \<Rightarrow> py_exception + rat list" where
  "numeric_values cs =
     (if list_ex is_str cs then Inl (TypeError ''unsupported operand type(s)'')
      else Inr (nums cs))"

text \<open>A float result is \<open>None\<close> for NaN. \<open>min\<close>, \<open>max\<close> and \<open>mean\<close> of no values are NaN.\<close>

definition series_min :: "cell list \<Rightarrow> py_exception + rat option" where
  "series_min cs =
     bind_exc (numeric_values cs)
       (\<lambda>vs. case vs of [] \<Rightarrow> Inr None | x # xs \<Rightarrow> Inr (Some (fold min xs x)))"

definition series_max :: "cell list \<Rightarrow> py_exception + rat option" where
  "series_max cs =
     bind_exc (numeric_values cs)
       (\<lambda>vs. case vs of [] \<Rightarrow> Inr None | x # xs \<Rightarrow> Inr (Some (fold max xs x)))"

definition series_mean :: "cell list \<Rightarrow> py_exception + rat option" where
  "series_mean cs =
     bind_exc (numeric_values cs)
       (\<lambda>vs. if vs = [] then Inr None else Inr (Some (sum_list vs / of_nat (length vs))))"

text \<open>\<open>Series.unique()\<close>: the distinct cells in order of first appearance, NaN included.\<close>

definition unique :: "cell list \<Rightarrow> cell list" where
  "unique cs = rev (remdups (rev cs))"

text \<open>Python's \<open>int(x)\<close> on a float: truncation towards zero, \<open>ValueError\<close> on NaN.\<close>

definition py_int :: "rat option \<Rightarrow> py_exception + int" where
  "py_int x =
     (case x of
        None \<Rightarrow> Inl (ValueError ''cannot convert float NaN to integer'')
      | Some v \<Rightarrow> Inr (if 0 \<le> v then \<lfloor>v\<rfloor> else \<lceil>v\<rceil>))"

text \<open>
  The format \<open>{x:,.0f}\<close> of an f-string: NaN prints as \<open>nan\<close>; the digits of a finite
  number are left to the parameter \<open>fmt\<close>.
\<close>

definition format_float0 :: "(rat \<Rightarrow> string) \<Rightarrow> rat option \<Rightarrow> string" where
  "format_float0 fmt x = (case x of None \<Rightarrow> ''nan'' | Some v \<Rightarrow> fmt v)"

section \<open>The filter controls and the filters\<close>

text \<open>
  What the sidebar hands to the filters. The slider returns integers; \<open>between\<close> takes any
  numbers, so the bounds are kept as rationals. \<open>selected_fuels\<close> and
  \<open>selected_conditions\<close> are read only when the frame has the column.
\<close>

record filter_spec =
  selected_years :: "rat \<times> rat"
  selected_fuels :: "cell list"
  selected_conditions :: "cell list"

text \<open>\<open>min_year\<close> and \<open>max_year\<close>, the bounds of the slider (lines 52 and 53).\<close>

definition year_bounds :: "dataframe \<Rightarrow> py_exception + int \<times> int" where
  "year_bounds df =
     bind_exc (bind_exc (bind_exc (getitem_col df ''model_year'') series_min) py_int)
       (\<lambda>min_year.
          bind_exc (bind_exc (bind_exc (getitem_col df ''model_year'') series_max) py_int)
            (\<lambda>max_year. Inr (min_year, max_year)))"

text \<open>
  \<open>st.slider\<close> belongs to Streamlit: what the widget returns, or the exception it raises,
  is an input of the model. The function takes \<open>min_value\<close>, \<open>max_value\<close> and \<open>value\<close>, in
  this order.
\<close>

type_synonym slider = "int \<Rightarrow> int \<Rightarrow> int \<times> int \<Rightarrow> py_exception + int \<times> int"

text \<open>
  Lines 52 to 59: \<open>selected_years\<close>. The two bounds are computed first, then the slider
  is called with them and with the whole range as its default value; an exception of
  either step ends the script.
\<close>

definition select_years :: "slider \<Rightarrow> dataframe \<Rightarrow> py_exception + rat \<times> rat" where
  "select_years st_slider df =
     bind_exc (year_bounds df)
       (\<lambda>(min_year, max_year).
          bind_exc (st_slider min_year max_year (min_year, max_year))
            (\<lambda>(lo, hi). Inr (of_int lo, of_int hi)))"

text \<open>\<open>Series.between(left, right)\<close>, both ends inclusive; NaN is never between.\<close>

definition between :: "rat \<Rightarrow> rat \<Rightarrow> cell \<Rightarrow> bool" where
  "between left right c = (case c of Num y \<Rightarrow> left \<le> y \<and> y \<le> right | _ \<Rightarrow> False)"

text \<open>\<open>Series.isin(values)\<close>; pandas lets NaN match NaN.\<close>

definition isin :: "cell list \<Rightarrow> cell \<Rightarrow> bool" where
  "isin vals c = (c \<in> set vals)"

text \<open>\<open>df[mask]\<close>: a new frame with the rows the mask selects, in their order.\<close>

definition getitem_mask :: "(row \<Rightarrow> bool) \<Rightarrow> dataframe \<Rightarrow> dataframe" where
  "getitem_mask keep df = df\<lparr>rows := filter keep (rows df)\<rparr>"

text \<open>
  Lines 77 to 83. \<open>df["model_year"]\<close> raises \<open>KeyError\<close> without the column, and the
  comparison of \<open>between\<close> raises \<open>TypeError\<close> on text; the two categorical filters look
  at \<open>df.columns\<close>, the columns of the unfiltered frame.
\<close>

definition apply_filters :: "dataframe \<Rightarrow> filter_spec \<Rightarrow> py_exception + dataframe" where
  "apply_filters df spec =
     (if ''model_year'' \<notin> set (columns df) then Inl (KeyError (py_repr_str ''model_year''))
      else if list_ex (\<lambda>r. is_str (r ''model_year'')) (rows df)
      then Inl (TypeError ''not supported between instances of str and int'')
      else
        let filtered_df =
              getitem_mask
                (\<lambda>r. between (fst (selected_years spec)) (snd (selected_years spec)) (r ''model_year''))
                df;
            filtered_df =
              (if ''fuel'' \<in> set (columns df)
               then getitem_mask (\<lambda>r. isin (selected_fuels spec) (r ''fuel'')) filtered_df
               else filtered_df);
            filtered_df =
              (if ''condition'' \<in> set (columns df)
               then getitem_mask (\<lambda>r. isin (selected_conditions spec) (r ''condition'')) filtered_df
               else filtered_df)
        in Inr filtered_df)"

text \<open>
  The same lines as statements on the two variables of the script: \<open>df\<close>, bound by the
  loader, and \<open>filtered_df\<close>, unbound before line 77 (the fields \<open>var_df\<close> and
  \<open>var_filtered_df\<close>).
\<close>

record script_state =
  var_df :: dataframe
  var_filtered_df :: "dataframe option"

definition stmt_year_filter :: "filter_spec \<Rightarrow> script_state \<Rightarrow> py_exception + script_state" where
  "stmt_year_filter spec s =
     (if ''model_year'' \<notin> set (columns (var_df s)) then Inl (KeyError (py_repr_str ''model_year''))
      else if list_ex (\<lambda>r. is_str (r ''model_year'')) (rows (var_df s))
      then Inl (TypeError ''not supported between instances of str and int'')
      else Inr (s\<lparr>var_filtered_df :=
                  Some (getitem_mask
                          (\<lambda>r. between (fst (selected_years spec)) (snd (selected_years spec))
                                 (r ''model_year''))
                          (var_df s))\<rparr>))"

definition stmt_isin_filter ::
  "string \<Rightarrow> cell list \<Rightarrow> script_state \<Rightarrow> py_exception + script_state" where
  "stmt_isin_filter col vals s =
     (if col \<in> set (columns (var_df s))
      then (case var_filtered_df s of
              None \<Rightarrow> Inl (NameError ''name filtered_df is not defined'')
            | Some f \<Rightarrow> Inr (s\<lparr>var_filtered_df := Some (getitem_mask (\<lambda>r. isin vals (r col)) f)\<rparr>))
      else Inr s)"

definition run_filters :: "filter_spec \<Rightarrow> script_state \<Rightarrow> py_exception + script_state" where
  "run_filters spec s =
     bind_exc (bind_exc (stmt_year_filter spec s) (stmt_isin_filter ''fuel'' (selected_fuels spec)))
       (stmt_isin_filter ''condition'' (selected_conditions spec))"

section \<open>The key metrics\<close>

datatype metric_value = IntValue int | TextValue string

definition mean_of :: "dataframe \<Rightarrow> string \<Rightarrow> py_exception + rat option" where
  "mean_of fdf col = bind_exc (getitem_col fdf col) series_mean"

text \<open>
  Lines 88 to 91: the four calls of \<open>metric\<close> in their order. The result is the list of
  the metrics shown, each under the name of its column widget, and the exception, if any,
  that ended the script before the rest was shown.
\<close>

definition render_metrics ::
  "(rat \<Rightarrow> string) \<Rightarrow> dataframe \<Rightarrow> (string \<times> metric_value) list \<times> py_exception option" where
  "render_metrics fmt fdf =
     (let shown1 = [(''col1'', IntValue (int (length (rows fdf))))]
      in (case bind_exc (mean_of fdf ''model_year'') py_int of
            Inl e \<Rightarrow> (shown1, Some e)
          | Inr y \<Rightarrow>
              (let shown2 = shown1 @ [(''col2'', IntValue y)]
               in (case mean_of fdf ''price'' of
                     Inl e \<Rightarrow> (shown2, Some e)
                   | Inr p \<Rightarrow>
                       (let shown3 =
                              shown2 @ [(''col3'', TextValue (''$'' @ format_float0 fmt p))]
                        in (case mean_of fdf ''odometer'' of
                              Inl e \<Rightarrow> (shown3, Some e)
                            | Inr k \<Rightarrow>
                                (shown3
                                   @ [(''col4'', TextValue (format_float0 fmt k @ '' km''))],
                                 None)))))))"

section \<open>The specification's notions\<close>

text \<open>
  A Dataset of the specification: a frame with the three required columns in which every
  row has a number in each of them.
\<close>

definition is_dataset :: "dataframe \<Rightarrow> bool" where
  "is_dataset d =
     (list_all (\<lambda>c. c \<in> set (columns d)) numeric_cols
      \<and> list_all (\<lambda>r. list_all (\<lambda>c. is_num (r c)) numeric_cols) (rows d))"

text \<open>
  The number a cell of the source stands for, in the specification's words: an empty cell
  stands for none, a number for itself, and a text for the number the parser reads in it,
  for none when the parser fails on it.
\<close>

definition cell_number :: "(string \<Rightarrow> rat option) \<Rightarrow> cell \<Rightarrow> rat option" where
  "cell_number parse c = (case c of NaN \<Rightarrow> None | Num x \<Rightarrow> Some x | Str s \<Rightarrow> parse s)"

text \<open>
  A row with an unparsable required cell: at least one of its three required cells stands
  for no number.
\<close>

definition unparsable_row :: "(string \<Rightarrow> rat option) \<Rightarrow> row \<Rightarrow> bool" where
  "unparsable_row parse r = list_ex (\<lambda>c. cell_number parse (r c) = None) numeric_cols"

text \<open>
  The row the specification expects after coercion: each required cell holds the number
  it stands for, and is missing when it stands for none; every other cell is as read.
\<close>

definition coerced_row :: "(string \<Rightarrow> rat option) \<Rightarrow> row \<Rightarrow> row" where
  "coerced_row parse r =
     (\<lambda>c. if c \<in> set numeric_cols
          then (case cell_number parse (r c) of None \<Rightarrow> NaN | Some x \<Rightarrow> Num x)
          else r c)"

text \<open>
  The FilteredView of the specification, written from its words: a record is in the view
  when its model year is within the inclusive range, and the frame has no fuel column or
  the record's fuel is allowed, and the frame has no condition column or the record's
  condition is allowed.
\<close>

definition in_view :: "dataframe \<Rightarrow> filter_spec \<Rightarrow> row \<Rightarrow> bool" where
  "in_view d spec r =
     ((case r ''model_year'' of
         Num y \<Rightarrow> fst (selected_years spec) \<le> y \<and> y \<le> snd (selected_years spec)
       | _ \<Rightarrow> False)
      \<and> (''fuel'' \<notin> set (columns d) \<or> r ''fuel'' \<in> set (selected_fuels spec))
      \<and> (''condition'' \<notin> set (columns d) \<or> r ''condition'' \<in> set (selected_conditions spec)))"

text \<open>
  The model years of a frame are whole numbers: every cell of \<open>model_year\<close> is a number
  equal to its integer part.
\<close>

definition whole_years :: "dataframe \<Rightarrow> bool" where
  "whole_years d =
     list_all (\<lambda>r. case r ''model_year'' of Num y \<Rightarrow> of_int \<lfloor>y\<rfloor> = y | _ \<Rightarrow> False) (rows d)"

text \<open>
  Every record's model year lies within the closed interval of the two integer bounds.
\<close>

definition years_within :: "int \<times> int \<Rightarrow> dataframe \<Rightarrow> bool" where
  "years_within b d =
     list_all (\<lambda>r. between (of_int (fst b)) (of_int (snd b)) (r ''model_year'')) (rows d)"

text \<open>
  The filter with the year range \<open>(lo, hi)\<close> and, as allowed sets, all the distinct
  values present in the \<open>fuel\<close> and \<open>condition\<close> columns.
\<close>

definition full_selection :: "rat \<Rightarrow> rat \<Rightarrow> dataframe \<Rightarrow> filter_spec" where
  "full_selection lo hi d =
     \<lparr>selected_years = (lo, hi),
      selected_fuels = unique (map (\<lambda>r. r ''fuel'') (rows d)),
      selected_conditions = unique (map (\<lambda>r. r ''condition'') (rows d))\<rparr>"

section \<open>Example data\<close>

text \<open>A row written as the list of its cells by column; any other name reads as NaN.\<close>

definition mk_row :: "(string \<times> cell) list \<Rightarrow> row" where
  "mk_row kvs = (\<lambda>c. case map_of kvs c of Some v \<Rightarrow> v | None \<Rightarrow> NaN)"

text \<open>
  A parsed CSV of five rows; the \<open>odometer\<close> and \<open>price\<close> columns were read as text. The
  third row has a text in \<open>odometer\<close> that is no number, the fourth has such a text in two
  required cells at once, and the fifth has an empty \<open>model_year\<close>.
\<close>

definition example_raw :: dataframe where
  "example_raw =
     \<lparr>columns = [''model_year'', ''odometer'', ''price'', ''fuel''],
      rows =
        [mk_row [(''model_year'', Num 2015), (''odometer'', Str ''50000''),
                 (''price'', Str ''10000''), (''fuel'', Str ''gas'')],
         mk_row [(''model_year'', Num 2018), (''odometer'', Str ''20000''),
                 (''price'', Str ''18000''), (''fuel'', Str ''diesel'')],
         mk_row [(''model_year'', Num 2020), (''odometer'', Str ''unknown''),
                 (''price'', Str ''7000''), (''fuel'', Str ''gas'')],
         mk_row [(''model_year'', Num 2012), (''odometer'', Str ''unknown''),
                 (''price'', Str ''free''), (''fuel'', Str ''gas'')],
         mk_row [(''model_year'', NaN), (''odometer'', Str ''100''),
                 (''price'', Str ''5''), (''fuel'', Str ''gas'')]]\<rparr>"

text \<open>The two-row dataset of the specification's example, and its filter.\<close>

definition example_dataset :: dataframe where
  "example_dataset =
     \<lparr>columns = [''model_year'', ''odometer'', ''price'', ''fuel''],
      rows =
        [mk_row [(''model_year'', Num 2015), (''odometer'', Num 50000),
                 (''price'', Num 10000), (''fuel'', Str ''gas'')],
         mk_row [(''model_year'', Num 2018), (''odometer'', Num 20000),
                 (''price'', Num 18000), (''fuel'', Str ''diesel'')]]\<rparr>"

definition example_spec :: filter_spec where
  "example_spec =
     \<lparr>selected_years = (2016, 2020),
      selected_fuels = [Str ''gas'', Str ''diesel''],
      selected_conditions = []\<rparr>"

text \<open>The same dataset after the user has cleared the fuel selection.\<close>

definition no_fuel_spec :: filter_spec where
  "no_fuel_spec =
     \<lparr>selected_years = (2015, 2018), selected_fuels = [], selected_conditions = []\<rparr>"

text \<open>A frame without the \<open>model_year\<close> column, and one without \<open>odometer\<close>.\<close>

definition example_no_year :: dataframe where
  "example_no_year =
     \<lparr>columns = [''odometer'', ''price''],
      rows = [mk_row [(''odometer'', Num 50000), (''price'', Num 10000)]]\<rparr>"

definition example_no_odometer :: dataframe where
  "example_no_odometer =
     \<lparr>columns = [''model_year'', ''price''],
      rows = [mk_row [(''model_year'', Num 2015), (''price'', Num 10000)]]\<rparr>"

text \<open>A dataset in which one model year, read from the cell \<open>2015.5\<close>, is not whole.\<close>

definition fractional_dataset :: dataframe where
  "fractional_dataset =
     \<lparr>columns = [''model_year'', ''odometer'', ''price''],
      rows =
        [mk_row [(''model_year'', Num 2010), (''odometer'', Num 90000), (''price'', Num 4000)],
         mk_row [(''model_year'', Num (4031 / 2)), (''odometer'', Num 50000),
                 (''price'', Num 10000)]]\<rparr>"

text \<open>The cells of a frame, row by row, each row in the order of the frame's columns.\<close>

definition to_lists :: "dataframe \<Rightarrow> cell list list" where
  "to_lists d = map (\<lambda>r. map r (columns d)) (rows d)"

text \<open>The script's state when the loader has returned the example dataset.\<close>

definition example_state :: script_state where
  "example_state = \<lparr>var_df = example_dataset, var_filtered_df = None\<rparr>"

text \<open>
  A sample slider for the examples: the user leaves it untouched, so it returns its
  default value; it raises when the minimum is not below the maximum.
\<close>

definition untouched_slider :: slider where
  "untouched_slider min_value max_value v =
     (if min_value < max_value then Inr v
      else Inl (OtherException ''Slider min_value must be less than the max_value''))"

text \<open>A dataset whose two rows have the same model year.\<close>

definition single_year_dataset :: dataframe where
  "single_year_dataset =
     \<lparr>columns = [''model_year'', ''odometer'', ''price''],
      rows =
        [mk_row [(''model_year'', Num 2015), (''odometer'', Num 90000), (''price'', Num 4000)],
         mk_row [(''model_year'', Num 2015), (''odometer'', Num 50000),
                 (''price'', Num 10000)]]\<rparr>"

section \<open>Properties of the loader\<close>

subsection \<open>Coercion keeps the columns and rewrites the three required cells\<close>

lemma columns_coerce_column [simp]: "columns (coerce_column parse col d) = columns d"
  by (simp add: coerce_column_def)

lemma columns_coerce_numeric_cols [simp]: "columns (coerce_numeric_cols parse d) = columns d"
  by (simp add: coerce_numeric_cols_def numeric_cols_def)

lemma rows_coerce_numeric_cols_full:
  assumes "list_all (\<lambda>c. c \<in> set (columns d)) numeric_cols"
  shows "rows (coerce_numeric_cols parse d) = map (coerced_row parse) (rows d)"
proof -
  have "(\<lambda>r. r(''model_year'' := to_numeric parse (r ''model_year''),
               ''odometer'' := to_numeric parse (r ''odometer''),
               ''price'' := to_numeric parse (r ''price''))) = coerced_row parse"
    by (auto simp: fun_eq_iff coerced_row_def numeric_cols_def to_numeric_def cell_number_def
        split: cell.splits option.splits)
  with assms show ?thesis
    by (simp add: coerce_numeric_cols_def numeric_cols_def coerce_column_def comp_def)
qed

lemma keeps_parsable:
  "(coerced_row parse r ''model_year'' \<noteq> NaN \<and> coerced_row parse r ''odometer'' \<noteq> NaN
      \<and> coerced_row parse r ''price'' \<noteq> NaN) = (\<not> unparsable_row parse r)"
  by (simp add: coerced_row_def unparsable_row_def numeric_cols_def split: option.splits)

lemma handle_exception_None: "snd (handle_exception e) = None"
  by (cases e) (simp_all add: handle_exception_def)

lemma load_data_message_None:
  "fst (load_data parse src) \<noteq> [] \<Longrightarrow> snd (load_data parse src) = None"
  by (auto simp: load_data_def handle_exception_None split: csv_read.splits sum.splits if_splits)

lemma load_failure_not_schema_error: "load_failure_msg e \<noteq> schema_error_msg"
  by (simp add: load_failure_msg_def schema_error_msg_def)

lemma parse_digits_examples:
  "parse_digits ''50000'' = Some 50000" "parse_digits ''20000'' = Some 20000"
  "parse_digits ''10000'' = Some 10000" "parse_digits ''18000'' = Some 18000"
  "parse_digits ''7000'' = Some 7000" "parse_digits ''100'' = Some 100"
  "parse_digits ''5'' = Some 5" "parse_digits ''unknown'' = None"
  "parse_digits ''free'' = None"
  by (simp_all add: parse_digits_def is_digit_def digit_val_def)

subsection \<open>The claims on \<open>load_data\<close>\<close>

text \<open>
  Claim C2. For every parsed source table without the \<open>model_year\<close> column, \<open>load_data\<close>
  shows the schema-error message, and only it, and returns \<open>None\<close>: no dataset, partial
  or otherwise, comes out.
\<close>

theorem load_data_schema_error:
  "''model_year'' \<notin> set (columns d) \<Longrightarrow> load_data parse (Parsed d) = ([schema_error_msg], None)"
  by (simp add: load_data_def)

theorem load_data_schema_error_witness:
  "''model_year'' \<notin> set (columns example_no_year)
   \<and> load_data parse_digits (Parsed example_no_year) = ([schema_error_msg], None)"
proof -
  have h: "''model_year'' \<notin> set (columns example_no_year)"
    by (simp add: example_no_year_def)
  show ?thesis using h load_data_schema_error [OF h, of parse_digits] by simp
qed

text \<open>
  Claim C3. For every parsed source table with the three required columns, \<open>load_data\<close>
  raises nothing, shows no message and returns the frame whose rows are the input rows
  without an unparsable required cell, in their order. In each of them the three required
  cells hold the numbers they stand for and every other cell is as read. A row with a
  required cell that is empty or holds a text the parser fails on is dropped, not
  repaired. The number of rows returned is the number of input rows minus the number of
  rows with at least one unparsable required cell, a row with several such cells being
  counted once.
\<close>

theorem load_data_drops_unparsable_rows:
  assumes "list_all (\<lambda>c. c \<in> set (columns d)) numeric_cols"
  shows "load_data parse (Parsed d)
           = ([], Some (d\<lparr>rows := map (coerced_row parse)
                                   (filter (\<lambda>r. \<not> unparsable_row parse r) (rows d))\<rparr>))
         \<and> length (map (coerced_row parse) (filter (\<lambda>r. \<not> unparsable_row parse r) (rows d)))
             = length (rows d) - length (filter (unparsable_row parse) (rows d))"
proof -
  let ?c = "coerce_numeric_cols parse d"
  have cols: "''model_year'' \<in> set (columns d)" "''odometer'' \<in> set (columns d)"
    "''price'' \<in> set (columns d)"
    using assms by (simp_all add: numeric_cols_def)
  have c: "?c = d\<lparr>rows := map (coerced_row parse) (rows d)\<rparr>"
    using rows_coerce_numeric_cols_full [OF assms, of parse] columns_coerce_numeric_cols [of parse d]
    by (simp add: dataframe.equality)
  have "dropna [''model_year'', ''odometer'', ''price''] ?c
          = Inr (d\<lparr>rows := map (coerced_row parse)
                               (filter (\<lambda>r. \<not> unparsable_row parse r) (rows d))\<rparr>)"
    unfolding c using cols
    by (simp add: dropna_def filter_map comp_def keeps_parsable)
  then have "load_data parse (Parsed d)
           = ([], Some (d\<lparr>rows := map (coerced_row parse)
                                   (filter (\<lambda>r. \<not> unparsable_row parse r) (rows d))\<rparr>))"
    using cols by (simp add: load_data_def)
  moreover have "length (filter (\<lambda>r. \<not> unparsable_row parse r) (rows d))
      = length (rows d) - length (filter (unparsable_row parse) (rows d))"
    using sum_length_filter_compl [of "unparsable_row parse" "rows d"] by simp
  ultimately show ?thesis by simp
qed

theorem load_data_drops_unparsable_rows_witness:
  "list_all (\<lambda>c. c \<in> set (columns example_raw)) numeric_cols
   \<and> fst (load_data parse_digits (Parsed example_raw)) = []
   \<and> map_option to_lists (snd (load_data parse_digits (Parsed example_raw)))
       = Some [[Num 2015, Num 50000, Num 10000, Str ''gas''],
               [Num 2018, Num 20000, Num 18000, Str ''diesel'']]
   \<and> length (rows example_raw) = 5
   \<and> map (unparsable_row parse_digits) (rows example_raw) = [False, False, True, True, True]
   \<and> length (filter (unparsable_row parse_digits) (rows example_raw)) = 3"
proof -
  have h: "list_all (\<lambda>c. c \<in> set (columns example_raw)) numeric_cols"
    by (simp add: example_raw_def numeric_cols_def)
  show ?thesis
    using h load_data_drops_unparsable_rows [OF h, of parse_digits]
    by (simp add: example_raw_def to_lists_def mk_row_def unparsable_row_def coerced_row_def
        numeric_cols_def cell_number_def parse_digits_examples)
qed

text \<open>
  Claim C10. For every parsed source table that has \<open>model_year\<close> but lacks \<open>odometer\<close> or
  \<open>price\<close>, \<open>load_data\<close> does not show the schema-error message: the coercion loop skips
  the absent column, \<open>dropna\<close> raises \<open>KeyError\<close> with the list of the absent labels, the
  generic handler shows the load-failure message with that detail, and \<open>None\<close> is
  returned. And whatever the source, when \<open>load_data\<close> shows a message it returns \<open>None\<close>.
\<close>

theorem load_data_missing_required_column:
  assumes "''model_year'' \<in> set (columns d)"
    and "''odometer'' \<notin> set (columns d) \<or> ''price'' \<notin> set (columns d)"
  shows "load_data parse (Parsed d)
           = ([load_failure_msg
                 (KeyError (py_repr_list
                    (filter (\<lambda>c. c \<notin> set (columns d)) [''odometer'', ''price''])))], None)
         \<and> fst (load_data parse (Parsed d)) \<noteq> [schema_error_msg]
         \<and> (\<forall>src. fst (load_data parse src) \<noteq> [] \<longrightarrow> snd (load_data parse src) = None)"
proof -
  let ?missing = "filter (\<lambda>c. c \<notin> set (columns d)) [''odometer'', ''price'']"
  have ne: "?missing \<noteq> []" using assms(2) by auto
  have "dropna [''model_year'', ''odometer'', ''price''] (coerce_numeric_cols parse d)
          = Inl (KeyError (py_repr_list ?missing))"
    using assms(1) ne by (simp add: dropna_def)
  then have 1: "load_data parse (Parsed d)
                  = ([load_failure_msg (KeyError (py_repr_list ?missing))], None)"
    using assms(1) by (simp add: load_data_def handle_exception_def)
  have 2: "fst (load_data parse (Parsed d)) \<noteq> [schema_error_msg]"
    unfolding 1 by (simp add: load_failure_not_schema_error)
  show ?thesis using 1 2 load_data_message_None by blast
qed

theorem load_data_missing_required_column_witness:
  "''model_year'' \<in> set (columns example_no_odometer)
   \<and> ''odometer'' \<notin> set (columns example_no_odometer)
   \<and> load_data parse_digits (Parsed example_no_odometer)
       = ([''Error al cargar datos: ['' @ [CHR 0x27] @ ''odometer'' @ [CHR 0x27] @ '']''], None)"
proof -
  have h1: "''model_year'' \<in> set (columns example_no_odometer)"
    by (simp add: example_no_odometer_def)
  have h2: "''odometer'' \<notin> set (columns example_no_odometer)
              \<or> ''price'' \<notin> set (columns example_no_odometer)"
    by (simp add: example_no_odometer_def)
  show ?thesis
    using h1 h2 load_data_missing_required_column [OF h1 h2, of parse_digits]
    by (simp add: example_no_odometer_def load_failure_msg_def py_repr_list_def py_repr_str_def)
qed

section \<open>Properties of the filters\<close>

subsection \<open>A dataset has the three columns and numbers in them\<close>

lemma is_dataset_columns:
  assumes "is_dataset d"
  shows "''model_year'' \<in> set (columns d)" "''odometer'' \<in> set (columns d)"
    "''price'' \<in> set (columns d)"
  using assms by (simp_all add: is_dataset_def numeric_cols_def)

lemma is_dataset_num:
  assumes "is_dataset d" "r \<in> set (rows d)"
  shows "is_num (r ''model_year'')" "is_num (r ''odometer'')" "is_num (r ''price'')"
  using assms by (simp_all add: is_dataset_def numeric_cols_def list_all_iff)

lemma is_num_not_str: "is_num c \<Longrightarrow> \<not> is_str c"
  by (cases c) simp_all

lemma is_dataset_no_str:
  assumes "is_dataset d"
  shows "\<not> list_ex (\<lambda>r. is_str (r ''model_year'')) (rows d)"
  using is_dataset_num(1) [OF assms] by (auto simp: list_ex_iff dest: is_num_not_str)

lemma is_dataset_example: "is_dataset example_dataset"
  by (simp add: is_dataset_def example_dataset_def numeric_cols_def mk_row_def)

subsection \<open>The three statements select the rows of the view\<close>

lemma apply_filters_rows:
  assumes "''model_year'' \<in> set (columns d)"
    and "\<not> list_ex (\<lambda>r. is_str (r ''model_year'')) (rows d)"
  shows "apply_filters d spec = Inr (d\<lparr>rows := filter (in_view d spec) (rows d)\<rparr>)"
  using assms
  by (simp add: apply_filters_def getitem_mask_def in_view_def [abs_def] between_def isin_def
      Let_def conj_commute conj_left_commute)

subsection \<open>The claims on the filters\<close>

text \<open>
  Claim C4. For every dataset and every filter selection, the three filter statements
  raise nothing and return the frame with the dataset's columns whose rows are exactly
  the subsequence of the dataset's rows that satisfy the conjunction: the model year
  within the inclusive range, and the \<open>fuel\<close> column absent or the fuel among the
  selected ones, and the \<open>condition\<close> column absent or the condition among the selected
  ones. A categorical column that is absent excludes no row.
\<close>

theorem apply_filters_is_view:
  assumes "is_dataset d"
  shows "apply_filters d spec = Inr (d\<lparr>rows := filter (in_view d spec) (rows d)\<rparr>)"
  using apply_filters_rows [OF is_dataset_columns(1) [OF assms] is_dataset_no_str [OF assms]] .

theorem apply_filters_is_view_witness:
  "is_dataset example_dataset
   \<and> map_sum id to_lists (apply_filters example_dataset example_spec)
       = Inr [[Num 2018, Num 20000, Num 18000, Str ''diesel'']]"
proof -
  have h: "is_dataset example_dataset" by (rule is_dataset_example)
  show ?thesis
    using h apply_filters_is_view [OF h, of example_spec]
    by (simp add: in_view_def example_dataset_def example_spec_def to_lists_def mk_row_def)
qed

text \<open>
  Claim C7. For every dataset with a \<open>fuel\<close> column and every selection in which no fuel
  is selected, the filters raise nothing and return a frame of zero rows: the empty
  selection is not read as a selection of everything, and the empty view is a regular
  result.
\<close>

theorem apply_filters_empty_fuels:
  assumes "is_dataset d" and "''fuel'' \<in> set (columns d)" and "selected_fuels spec = []"
  shows "apply_filters d spec = Inr (d\<lparr>rows := []\<rparr>)
         \<and> map_sum id (\<lambda>v. length (rows v)) (apply_filters d spec) = Inr 0"
  using assms
    apply_filters_rows [OF is_dataset_columns(1) [OF assms(1)] is_dataset_no_str [OF assms(1)],
      of spec]
  by (simp add: in_view_def)

theorem apply_filters_empty_fuels_witness:
  "is_dataset example_dataset \<and> ''fuel'' \<in> set (columns example_dataset)
   \<and> selected_fuels no_fuel_spec = []
   \<and> map_sum id to_lists (apply_filters example_dataset no_fuel_spec) = Inr []"
proof -
  have h1: "is_dataset example_dataset" by (rule is_dataset_example)
  have h2: "''fuel'' \<in> set (columns example_dataset)" by (simp add: example_dataset_def)
  have h3: "selected_fuels no_fuel_spec = []" by (simp add: no_fuel_spec_def)
  show ?thesis
    using h1 h2 h3 apply_filters_empty_fuels [OF h1 h2 h3]
    by (simp add: to_lists_def)
qed

text \<open>
  Claim C8. For every frame and every filter selection, filtering the filtered frame
  again with the same selection gives what filtering once gives: the same frame, or,
  when the first filtering raises, the same exception.
\<close>

theorem apply_filters_idempotent:
  "bind_exc (apply_filters d spec) (\<lambda>v. apply_filters v spec) = apply_filters d spec"
proof (cases "''model_year'' \<in> set (columns d)
                \<and> \<not> list_ex (\<lambda>r. is_str (r ''model_year'')) (rows d)")
  case True
  let ?v = "d\<lparr>rows := filter (in_view d spec) (rows d)\<rparr>"
  have 1: "apply_filters d spec = Inr ?v" using True by (simp add: apply_filters_rows)
  have "''model_year'' \<in> set (columns ?v)" using True by simp
  moreover have "\<not> list_ex (\<lambda>r. is_str (r ''model_year'')) (rows ?v)"
    using True by (auto simp: list_ex_iff)
  ultimately have "apply_filters ?v spec = Inr (?v\<lparr>rows := filter (in_view ?v spec) (rows ?v)\<rparr>)"
    by (rule apply_filters_rows)
  moreover have "in_view ?v spec = in_view d spec"
    by (simp add: in_view_def fun_eq_iff)
  ultimately have "apply_filters ?v spec = Inr ?v" by simp
  with 1 show ?thesis by (simp add: bind_exc_def)
next
  case False
  then show ?thesis by (auto simp: apply_filters_def bind_exc_def)
qed

theorem apply_filters_idempotent_witness:
  "map_sum id to_lists
     (bind_exc (apply_filters example_dataset example_spec) (\<lambda>v. apply_filters v example_spec))
     = Inr [[Num 2018, Num 20000, Num 18000, Str ''diesel'']]"
proof -
  have "''model_year'' \<in> set (columns example_dataset)"
    by (simp add: example_dataset_def)
  then have "apply_filters example_dataset example_spec
               = Inr (example_dataset\<lparr>rows := filter (in_view example_dataset example_spec)
                                                 (rows example_dataset)\<rparr>)"
    using is_dataset_no_str [OF is_dataset_example] by (rule apply_filters_rows)
  then show ?thesis
    using apply_filters_idempotent [of example_dataset example_spec]
    by (simp add: in_view_def example_dataset_def example_spec_def to_lists_def mk_row_def)
qed

text \<open>
  Claim C9. For every script state whose variable \<open>df\<close> holds a dataset and every filter
  selection, the three filter statements run to their end without an exception, leave
  the variable \<open>df\<close> exactly as it was, records and fields, and bind \<open>filtered_df\<close> to the
  filtered frame, a new value selected from \<open>df\<close>.
\<close>

theorem run_filters_leaves_df:
  assumes "is_dataset (var_df s)"
  shows "\<exists>s' v. run_filters spec s = Inr s' \<and> var_df s' = var_df s
           \<and> var_filtered_df s' = Some v \<and> apply_filters (var_df s) spec = Inr v"
  using is_dataset_columns(1) [OF assms] is_dataset_no_str [OF assms]
  by (simp add: run_filters_def stmt_year_filter_def stmt_isin_filter_def bind_exc_def
      apply_filters_def Let_def)

theorem run_filters_leaves_df_witness:
  "is_dataset (var_df example_state)
   \<and> map_sum id var_df (run_filters example_spec example_state) = Inr example_dataset
   \<and> map_sum id (\<lambda>s. map_option to_lists (var_filtered_df s))
         (run_filters example_spec example_state)
       = Inr (Some [[Num 2018, Num 20000, Num 18000, Str ''diesel'']])"
proof -
  have h: "is_dataset (var_df example_state)"
    by (simp add: example_state_def is_dataset_example)
  have v: "apply_filters example_dataset example_spec
             = Inr (example_dataset\<lparr>rows := filter (in_view example_dataset example_spec)
                                               (rows example_dataset)\<rparr>)"
    using is_dataset_columns(1) [OF is_dataset_example] is_dataset_no_str [OF is_dataset_example]
    by (rule apply_filters_rows)
  from run_filters_leaves_df [OF h, of example_spec]
  obtain s' w where s': "run_filters example_spec example_state = Inr s'"
    "var_df s' = var_df example_state" "var_filtered_df s' = Some w"
    "apply_filters (var_df example_state) example_spec = Inr w"
    by blast
  from s'(4) v have "to_lists w = [[Num 2018, Num 20000, Num 18000, Str ''diesel'']]"
    by (auto simp: example_state_def in_view_def example_dataset_def example_spec_def
        to_lists_def mk_row_def)
  with h s' show ?thesis by (simp add: example_state_def)
qed

section \<open>The year range\<close>

subsection \<open>Minimum and maximum of a column\<close>

lemma nums_mem: "Num y \<in> set cs \<Longrightarrow> y \<in> set (nums cs)"
  by (induction cs rule: nums.induct) auto


lemma fold_min_le: "y \<in> set (x # xs) \<Longrightarrow> fold min xs x \<le> (y::rat)"
  using Min_le [of "set (x # xs)" y] by (simp only: Min.set_eq_fold [symmetric] List.finite_set)

lemma fold_max_ge: "y \<in> set (x # xs) \<Longrightarrow> (y::rat) \<le> fold max xs x"
  using Max_ge [of "set (x # xs)" y] by (simp only: Max.set_eq_fold [symmetric] List.finite_set)



lemma set_unique [simp]: "set (unique cs) = set cs"
  by (simp add: unique_def)

lemma series_min_Some:
  assumes "series_min cs = Inr (Some lo)" and "Num y \<in> set cs"
  shows "lo \<le> y"
proof -
  from assms(1) obtain x xs where "nums cs = x # xs" "lo = fold min xs x"
    by (auto simp: series_min_def bind_exc_def numeric_values_def split: if_splits list.splits)
  with nums_mem [OF assms(2)] fold_min_le [of y x xs] show ?thesis by simp
qed

lemma series_max_Some:
  assumes "series_max cs = Inr (Some hi)" and "Num y \<in> set cs"
  shows "y \<le> hi"
proof -
  from assms(1) obtain x xs where "nums cs = x # xs" "hi = fold max xs x"
    by (auto simp: series_max_def bind_exc_def numeric_values_def split: if_splits list.splits)
  with nums_mem [OF assms(2)] fold_max_ge [of y x xs] show ?thesis by simp
qed

lemma getitem_col_dataset:
  "is_dataset d \<Longrightarrow> getitem_col d ''model_year'' = Inr (map (\<lambda>r. r ''model_year'') (rows d))"
  by (simp add: getitem_col_def is_dataset_columns)

lemma dataset_year_cell:
  assumes "is_dataset d" and "r \<in> set (rows d)"
  shows "\<exists>y. r ''model_year'' = Num y \<and> Num y \<in> set (map (\<lambda>r. r ''model_year'') (rows d))"
proof -
  from is_dataset_num(1) [OF assms] obtain y where y: "r ''model_year'' = Num y"
    by (cases "r ''model_year''") simp_all
  from assms(2) have "r ''model_year'' \<in> set (map (\<lambda>r. r ''model_year'') (rows d))" by simp
  with y show ?thesis by simp
qed

text \<open>The column of model years of a dataset with a row has a minimum and a maximum.\<close>

lemma dataset_min_max:
  assumes "is_dataset d" and "rows d \<noteq> []"
  shows "\<exists>x xs. nums (map (\<lambda>r. r ''model_year'') (rows d)) = x # xs
           \<and> series_min (map (\<lambda>r. r ''model_year'') (rows d)) = Inr (Some (fold min xs x))
           \<and> series_max (map (\<lambda>r. r ''model_year'') (rows d)) = Inr (Some (fold max xs x))"
proof -
  let ?col = "map (\<lambda>r. r ''model_year'') (rows d)"
  have nostr: "\<not> list_ex is_str ?col"
    using is_dataset_no_str [OF assms(1)] by (simp add: list_ex_iff)
  from assms(2) obtain r0 where "r0 \<in> set (rows d)" by (cases "rows d") auto
  from dataset_year_cell [OF assms(1) this] obtain y0 where "Num y0 \<in> set ?col" by blast
  from nums_mem [OF this] obtain x xs where xs: "nums ?col = x # xs"
    by (cases "nums ?col") auto
  have "series_min ?col = Inr (Some (fold min xs x))"
    using nostr xs by (simp add: series_min_def numeric_values_def bind_exc_def)
  moreover have "series_max ?col = Inr (Some (fold max xs x))"
    using nostr xs by (simp add: series_max_def numeric_values_def bind_exc_def)
  ultimately show ?thesis using xs by blast
qed

subsection \<open>The full range with the full selections\<close>

text \<open>
  Claim C5. For every dataset with at least one row, the minimum and the maximum of the
  \<open>model_year\<close> column exist, and the filters with the year range from that minimum to that
  maximum and with every distinct value of the \<open>fuel\<close> and \<open>condition\<close> columns selected
  return the dataset itself: the same columns and the same rows in the same order.
\<close>

theorem apply_filters_full_selection:
  assumes "is_dataset d" and "rows d \<noteq> []"
  shows "\<exists>lo hi. bind_exc (getitem_col d ''model_year'') series_min = Inr (Some lo)
           \<and> bind_exc (getitem_col d ''model_year'') series_max = Inr (Some hi)
           \<and> apply_filters d (full_selection lo hi d) = Inr d"
proof -
  let ?col = "map (\<lambda>r. r ''model_year'') (rows d)"
  from dataset_min_max [OF assms] obtain lo hi
    where mn: "series_min ?col = Inr (Some lo)" and mx: "series_max ?col = Inr (Some hi)"
    by blast
  have "in_view d (full_selection lo hi d) r" if r: "r \<in> set (rows d)" for r
  proof -
    from dataset_year_cell [OF assms(1) r] obtain y
      where y: "r ''model_year'' = Num y" "Num y \<in> set ?col" by blast
    have "lo \<le> y" "y \<le> hi"
      using series_min_Some [OF mn y(2)] series_max_Some [OF mx y(2)] by simp_all
    with y(1) r show ?thesis by (simp add: in_view_def full_selection_def)
  qed
  then have "filter (in_view d (full_selection lo hi d)) (rows d) = rows d"
    by (simp add: filter_id_conv)
  then have "apply_filters d (full_selection lo hi d) = Inr d"
    using apply_filters_rows [OF is_dataset_columns(1) [OF assms(1)] is_dataset_no_str [OF assms(1)],
        of "full_selection lo hi d"]
    by simp
  with mn mx show ?thesis
    by (simp add: getitem_col_dataset [OF assms(1)] bind_exc_def)
qed

theorem apply_filters_full_selection_witness:
  "is_dataset example_dataset \<and> rows example_dataset \<noteq> []
   \<and> bind_exc (getitem_col example_dataset ''model_year'') series_min = Inr (Some 2015)
   \<and> bind_exc (getitem_col example_dataset ''model_year'') series_max = Inr (Some 2018)
   \<and> apply_filters example_dataset (full_selection 2015 2018 example_dataset)
       = Inr example_dataset"
proof -
  have h1: "is_dataset example_dataset" by (rule is_dataset_example)
  have h2: "rows example_dataset \<noteq> []" by (simp add: example_dataset_def)
  have mn: "bind_exc (getitem_col example_dataset ''model_year'') series_min = Inr (Some 2015)"
    by (simp add: example_dataset_def getitem_col_def series_min_def numeric_values_def
        bind_exc_def mk_row_def)
  have mx: "bind_exc (getitem_col example_dataset ''model_year'') series_max = Inr (Some 2018)"
    by (simp add: example_dataset_def getitem_col_def series_max_def numeric_values_def
        bind_exc_def mk_row_def)
  from apply_filters_full_selection [OF h1 h2] mn mx
  have "apply_filters example_dataset (full_selection 2015 2018 example_dataset)
          = Inr example_dataset"
    by auto
  with h1 h2 mn mx show ?thesis by simp
qed

subsection \<open>The bounds of the slider\<close>




text \<open>
  Whatever the slider does with bounds it is given, \<open>selected_years\<close> is what it returns,
  and an exception it raises ends the script there.
\<close>

lemma select_years_slider:
  assumes "year_bounds d = Inr (lo, hi)"
  shows "select_years st_slider d
           = bind_exc (st_slider lo hi (lo, hi)) (\<lambda>(a, b). Inr (of_int a, of_int b))"
  using assms by (simp add: select_years_def bind_exc_def)

lemma select_years_single_year:
  "select_years untouched_slider single_year_dataset
     = Inl (OtherException ''Slider min_value must be less than the max_value'')"
proof -
  have "year_bounds single_year_dataset = Inr (2015, 2015)"
    by (simp add: year_bounds_def single_year_dataset_def getitem_col_def series_min_def
        series_max_def numeric_values_def bind_exc_def py_int_def mk_row_def)
  then show ?thesis
    by (simp add: select_years_slider untouched_slider_def bind_exc_def)
qed

text \<open>
  The loader does not check that a model year is a whole number, as the specification
  types it. On a frame with the model year 2015.5 the hypothesis of whole years fails,
  the bounds of lines 52 and 53 are 2010 and 2015, and that row's model year is outside
  them.
\<close>

lemma year_bounds_fractional_years:
  "is_dataset fractional_dataset \<and> \<not> whole_years fractional_dataset
   \<and> year_bounds fractional_dataset = Inr (2010, 2015)
   \<and> \<not> years_within (2010, 2015) fractional_dataset"
proof -
  have ds: "is_dataset fractional_dataset"
    by (simp add: is_dataset_def fractional_dataset_def numeric_cols_def mk_row_def)
  have fl: "\<lfloor>4031 / 2 :: rat\<rfloor> = 2015" by (simp add: floor_eq_iff)
  have nwh: "\<not> whole_years fractional_dataset"
    by (simp add: whole_years_def fractional_dataset_def mk_row_def fl)
  have yb: "year_bounds fractional_dataset = Inr (2010, 2015)"
    by (simp add: year_bounds_def fractional_dataset_def getitem_col_def series_min_def
        series_max_def numeric_values_def bind_exc_def py_int_def mk_row_def fl)
  have nw: "\<not> years_within (2010, 2015) fractional_dataset"
    by (simp add: years_within_def fractional_dataset_def between_def mk_row_def)
  from ds nwh yb nw show ?thesis by simp
qed




section \<open>The key metrics on an empty view\<close>

lemma mean_of_empty:
  assumes "col \<in> set (columns fdf)" and "rows fdf = []"
  shows "mean_of fdf col = Inr None"
  using assms
  by (simp add: mean_of_def getitem_col_def series_mean_def numeric_values_def bind_exc_def)

text \<open>
  On a frame of zero rows that has the \<open>model_year\<close> column, the first metric shows the
  count 0 and the second call raises: the mean of no values is NaN and \<open>int\<close> refuses it.
  The metrics of the price and of the odometer are never reached.
\<close>

lemma render_metrics_empty:
  assumes "''model_year'' \<in> set (columns fdf)" and "rows fdf = []"
  shows "render_metrics fmt fdf
           = ([(''col1'', IntValue 0)],
              Some (ValueError ''cannot convert float NaN to integer''))"
  using assms mean_of_empty [OF assms]
  by (simp add: render_metrics_def py_int_def bind_exc_def)

text \<open>
  The two mean metrics that are formatted and not converted print \<open>nan\<close> for the mean of
  an empty column.
\<close>

lemma format_mean_empty:
  assumes "col \<in> set (columns fdf)" and "rows fdf = []"
  shows "map_sum id (format_float0 fmt) (mean_of fdf col) = Inr ''nan''"
  using mean_of_empty [OF assms] by (simp add: format_float0_def)

text \<open>
  Claim C1. The claim asks that on an empty view the count be 0 and the three means be
  reported as NaN, without a crash. The script does otherwise: for the example dataset
  and the selection with no fuel selected the view is empty, the count 0 is shown, and
  the metric of the mean model year raises \<open>ValueError\<close>, which ends the script before
  the metrics of the mean price and of the mean odometer.
\<close>

theorem render_metrics_empty_view_raises:
  "map_sum id (render_metrics fmt) (apply_filters example_dataset no_fuel_spec)
     = Inr ([(''col1'', IntValue 0)],
            Some (ValueError ''cannot convert float NaN to integer''))"
proof -
  have "apply_filters example_dataset no_fuel_spec
          = Inr (example_dataset\<lparr>rows := filter (in_view example_dataset no_fuel_spec)
                                            (rows example_dataset)\<rparr>)"
    using is_dataset_columns(1) [OF is_dataset_example] is_dataset_no_str [OF is_dataset_example]
    by (rule apply_filters_rows)
  moreover have "filter (in_view example_dataset no_fuel_spec) (rows example_dataset) = []"
    by (simp add: in_view_def example_dataset_def no_fuel_spec_def)
  moreover have "render_metrics fmt (example_dataset\<lparr>rows := []\<rparr>)
                   = ([(''col1'', IntValue 0)],
                      Some (ValueError ''cannot convert float NaN to integer''))"
    by (rule render_metrics_empty) (simp_all add: example_dataset_def)
  ultimately show ?thesis by simp
qed

end
